theory Spec2Isabelle
  imports Complex_Main "HOL-Library.Word"
begin

unbundle bit_operations_syntax

section \<open>JavaScript values used by co2-monitor.js\<close>

text \<open>
  A Node \<open>Buffer\<close> is a sequence of bytes. Reading it by index gives a number in
  \<open>0..255\<close>, or \<open>undefined\<close> past the end (\<open>None\<close> here).
\<close>

type_synonym buffer = "8 word list"

definition buf_get :: "buffer \<Rightarrow> nat \<Rightarrow> int option" where
  "buf_get b i = (if i < length b then Some (uint (b ! i)) else None)"

text \<open>
  A JavaScript array of numbers may have holes; a hole reads as \<open>undefined\<close>, and a
  write past the end extends the array.
\<close>

type_synonym js_array = "int option list"

definition js_get :: "js_array \<Rightarrow> nat \<Rightarrow> int option" where
  "js_get a i = (if i < length a then a ! i else None)"

definition js_set :: "js_array \<Rightarrow> nat \<Rightarrow> int \<Rightarrow> js_array" where
  "js_set a i v =
     (if i < length a then a[i := Some v]
      else a @ replicate (i - length a) None @ [Some v])"

text \<open>
  The bitwise operators convert their operands with \<open>ToInt32\<close> (\<open>undefined\<close> becomes
  \<open>0\<close>), work on 32 bits and give a signed 32-bit result. The shift count is taken
  modulo 32; \<open>>>\<close> keeps the sign.
\<close>

definition to_int32 :: "int option \<Rightarrow> 32 word" where
  "to_int32 v = (case v of None \<Rightarrow> 0 | Some n \<Rightarrow> word_of_int n)"

definition js_xor :: "int option \<Rightarrow> int option \<Rightarrow> int" where
  "js_xor a b = sint (to_int32 a XOR to_int32 b)"

definition js_or :: "int option \<Rightarrow> int option \<Rightarrow> int" where
  "js_or a b = sint (to_int32 a OR to_int32 b)"

definition js_and :: "int option \<Rightarrow> int option \<Rightarrow> int" where
  "js_and a b = sint (to_int32 a AND to_int32 b)"

definition js_shl :: "int option \<Rightarrow> nat \<Rightarrow> int" where
  "js_shl a n = sint (push_bit (n mod 32) (to_int32 a))"

definition js_sar :: "int option \<Rightarrow> nat \<Rightarrow> int" where
  "js_sar a n = sint (signed_drop_bit (n mod 32) (to_int32 a))"

section \<open>The cipher: \<open>CO2Monitor._decrypt\<close>\<close>

definition cstate :: "int list" where
  "cstate = [0x48, 0x74, 0x65, 0x6D, 0x70, 0x39, 0x39, 0x65]"

definition shuffle :: "nat list" where
  "shuffle = [2, 4, 0, 7, 1, 6, 5, 3]"

text \<open>First loop: \<open>dataXor[shuffle[i]] = data[i] ^ key[shuffle[i]]\<close>.\<close>

definition xor_step :: "buffer \<Rightarrow> buffer \<Rightarrow> js_array \<Rightarrow> nat \<Rightarrow> js_array" where
  "xor_step key data dataXor i =
     (let idx = shuffle ! i
      in js_set dataXor idx (js_xor (buf_get data i) (buf_get key idx)))"

definition data_xor :: "buffer \<Rightarrow> buffer \<Rightarrow> js_array" where
  "data_xor key data = foldl (xor_step key data) [] [0..<length cstate]"

text \<open>
  Second loop:
  \<open>dataTmp[i] = ((dataXor[i] >> 3) | (dataXor[(i - 1 + 8) % 8] << 5)) & 0xff\<close>.
\<close>

definition tmp_at :: "js_array \<Rightarrow> nat \<Rightarrow> int" where
  "tmp_at dataXor i =
     js_and
       (Some (js_or (Some (js_sar (js_get dataXor i) 3))
                    (Some (js_shl (js_get dataXor (nat ((int i - 1 + 8) mod 8))) 5))))
       (Some 0xff)"

definition data_tmp :: "js_array \<Rightarrow> int list" where
  "data_tmp dataXor = map (tmp_at dataXor) [0..<length cstate]"

text \<open>
  Third loop: \<open>ctmp = ((cstate[i] >> 4) | (cstate[i] << 4)) & 0xff\<close> and
  \<open>results[i] = (0x100 + dataTmp[i] - ctmp) & 0xff\<close>.
\<close>

definition ctmp :: "nat \<Rightarrow> int" where
  "ctmp i =
     js_and
       (Some (js_or (Some (js_sar (Some (cstate ! i)) 4))
                    (Some (js_shl (Some (cstate ! i)) 4))))
       (Some 0xff)"

definition result_at :: "int list \<Rightarrow> nat \<Rightarrow> int" where
  "result_at dataTmp i = js_and (Some (0x100 + dataTmp ! i - ctmp i)) (Some 0xff)"

definition decrypt :: "buffer \<Rightarrow> buffer \<Rightarrow> int list" where
  "decrypt key data =
     (let dataXor = data_xor key data;
          dataTmp = data_tmp dataXor
      in map (result_at dataTmp) [0..<length cstate])"

text \<open>The key buffer the constructor stores in \<open>this._key\<close>.\<close>

definition fixed_key :: buffer where
  "fixed_key = [0xc4, 0xc6, 0xc0, 0x92, 0x40, 0x23, 0xdc, 0x96]"

section \<open>The session object\<close>

datatype js_error = Error string | TypeError string | LibUSBError int

text \<open>A field that holds \<open>null\<close>, \<open>undefined\<close> or an object.\<close>

datatype 'a js_ref = Null | Undefined | Obj 'a

text \<open>What the \<open>usb\<close> library hands out: a device, its interfaces, their endpoints.\<close>

type_synonym usb_endpoint = nat

record usb_interface =
  kernel_driver_active :: bool
  endpoints :: "usb_endpoint list"

record usb_device =
  interfaces :: "usb_interface list"

text \<open>
  The fields of a \<open>CO2Monitor\<close>; \<open>this_vid\<close> is \<open>this._vid\<close>, and so on. A cached
  reading is \<open>None\<close> while it is \<open>null\<close>. A cached floating-point reading is held as
  the rational number whose nearest double JavaScript stores.
\<close>

record session =
  this_vid :: int
  this_pid :: int
  this_debug :: bool
  this_key :: buffer
  this_device :: "usb_device js_ref"
  this_interface :: "usb_interface js_ref"
  this_endpoint :: "usb_endpoint js_ref"
  this_co2 :: "int option"
  this_temp :: "rat option"
  this_hum :: "rat option"

text \<open>The events the monitor emits, with their payload.\<close>

datatype event =
    EvError js_error
  | EvConnect "usb_endpoint js_ref"
  | EvDisconnect
  | EvTemp rat
  | EvCo2 int
  | EvHum rat

subsection \<open>The constructor\<close>

record options =
  vid :: "int option"
  pid :: "int option"
  debug :: "bool option"

text \<open>
  \<open>(o && o.f) || d\<close> for a numeric field: \<open>undefined\<close> and \<open>0\<close> are falsy. With
  \<open>debug\<close> set the constructor also calls \<open>usb.setDebugLevel(4)\<close>, which touches no field
  of the session.
\<close>

definition num_or_default :: "options option \<Rightarrow> (options \<Rightarrow> int option) \<Rightarrow> int \<Rightarrow> int" where
  "num_or_default opts f d =
     (case opts of
        None \<Rightarrow> d
      | Some o' \<Rightarrow> (case f o' of None \<Rightarrow> d | Some n \<Rightarrow> if n = 0 then d else n))"

definition bool_or_false :: "options option \<Rightarrow> bool" where
  "bool_or_false opts =
     (case opts of
        None \<Rightarrow> False
      | Some o' \<Rightarrow> (case debug o' of None \<Rightarrow> False | Some b \<Rightarrow> b))"

definition constructor :: "options option \<Rightarrow> session" where
  "constructor opts =
     \<lparr> this_vid = num_or_default opts vid 0x04D9,
       this_pid = num_or_default opts pid 0xA052,
       this_debug = bool_or_false opts,
       this_key = fixed_key,
       this_device = Null,
       this_interface = Null,
       this_endpoint = Null,
       this_co2 = None,
       this_temp = None,
       this_hum = None \<rparr>"

section \<open>The frame handler registered by \<open>transfer\<close>\<close>

text \<open>Reading a JavaScript array of numbers by index.\<close>

definition arr_get :: "int list \<Rightarrow> nat \<Rightarrow> int option" where
  "arr_get a i = (if i < length a then Some (a ! i) else None)"

text \<open>
  \<open>decrypted = data[4] != 0x0d ? CO2Monitor._decrypt(this._key, data) : data\<close>.
  In the second case the buffer itself is used; it is read as the numbers it holds.
\<close>

definition decode :: "buffer \<Rightarrow> buffer \<Rightarrow> int list" where
  "decode key data =
     (if buf_get data 4 \<noteq> Some 0x0d then decrypt key data else map uint data)"

text \<open>\<open>sum = decrypted.slice(0, 3).reduce((s, item) => (s + item), 0) & 0xff\<close>.\<close>

definition frame_sum :: "int list \<Rightarrow> int" where
  "frame_sum decrypted = js_and (Some (foldl (+) 0 (take 3 decrypted))) (Some 0xff)"

text \<open>\<open>decrypted[4] !== 0x0d || checksum !== sum\<close>.\<close>

definition checksum_error :: "int list \<Rightarrow> bool" where
  "checksum_error decrypted =
     (arr_get decrypted 4 \<noteq> Some 0x0d \<or> arr_get decrypted 3 \<noteq> Some (frame_sum decrypted))"

text \<open>\<open>value = decrypted[1] << 8 | decrypted[2]\<close>.\<close>

definition frame_value :: "int list \<Rightarrow> int" where
  "frame_value decrypted =
     js_or (Some (js_shl (arr_get decrypted 1) 8)) (arr_get decrypted 2)"

subsection \<open>The temperature: \<open>parseFloat((value / 16 - 273.15).toFixed(2))\<close>\<close>

text \<open>
  The arithmetic is in doubles. The literal \<open>273.15\<close> is the double
  \<open>4805305618032230 / 2^44\<close>. \<open>value\<close> is a 32-bit integer, so \<open>value / 16\<close> is exact and
  the exact difference is a multiple of \<open>2^-44\<close>; doubles are kept here as that multiple.
  The subtraction rounds the exact difference to 53 significant bits, \<open>toFixed(2)\<close> prints
  the nearest decimal with two places, and \<open>parseFloat\<close> reads that decimal back; the cached
  temperature is held as the decimal printed.
\<close>

definition dbl_273_15 :: int where
  "dbl_273_15 = 4805305618032230"

text \<open>The number of low bits a magnitude loses when it is cut to 53 significant bits.\<close>

function ulp_shift :: "int \<Rightarrow> nat" where
  "ulp_shift n = (if n < 2 ^ 53 then 0 else Suc (ulp_shift (n div 2)))"
  by pat_completeness auto
termination
  by (relation "measure nat") auto

text \<open>Rounding to a multiple of \<open>2^k\<close>, to nearest, ties to the even multiple.\<close>

definition round_even :: "int \<Rightarrow> nat \<Rightarrow> int" where
  "round_even n k =
     (let q = n div 2 ^ k; r = n mod 2 ^ k
      in (if 2 * r > 2 ^ k \<or> (2 * r = 2 ^ k \<and> odd q) then q + 1 else q) * 2 ^ k)"

text \<open>The double subtraction: the exact difference rounded to 53 significant bits.\<close>

definition round53 :: "int \<Rightarrow> int" where
  "round53 d = sgn d * round_even \<bar>d\<bar> (ulp_shift \<bar>d\<bar>)"

definition temp_diff :: "int \<Rightarrow> int" where
  "temp_diff v = round53 (v * 2 ^ 40 - dbl_273_15)"

text \<open>
  \<open>toFixed(2)\<close> of a double \<open>x / 2^44\<close>: the sign, then the integer \<open>n\<close> with \<open>n / 100\<close>
  nearest to the magnitude, the larger one of two. The result is \<open>n\<close>, in hundredths.
\<close>

definition to_fixed2 :: "int \<Rightarrow> int" where
  "to_fixed2 x = sgn x * ((\<bar>x\<bar> * 200 + 2 ^ 44) div 2 ^ 45)"

definition temp_of :: "int \<Rightarrow> rat" where
  "temp_of v = of_int (to_fixed2 (temp_diff v)) / 100"

text \<open>The humidity: \<open>parseFloat(value / 100)\<close>.\<close>

definition hum_of :: "int \<Rightarrow> rat" where
  "hum_of v = of_int v / 100"

subsection \<open>The opcode switch and the handler\<close>

definition dispatch :: "session \<Rightarrow> int list \<Rightarrow> session \<times> event list" where
  "dispatch s decrypted =
     (let op = arr_get decrypted 0; v = frame_value decrypted
      in if op = Some 0x42 then
           (s\<lparr>this_temp := Some (temp_of v)\<rparr>, [EvTemp (temp_of v)])
         else if op = Some 0x50 then
           (s\<lparr>this_co2 := Some v\<rparr>, [EvCo2 v])
         else if op = Some 0x41 then
           (s\<lparr>this_hum := Some (hum_of v)\<rparr>, [EvHum (hum_of v)])
         else (s, []))"

text \<open>
  The handler. Emitting the checksum error is its last act, so its result does not depend
  on what the \<open>error\<close> listeners do.
\<close>

definition on_data :: "session \<Rightarrow> buffer \<Rightarrow> session \<times> event list" where
  "on_data s data =
     (let decrypted = decode (this_key s) data
      in if checksum_error decrypted then (s, [EvError (Error ''Checksum Error.'')])
         else dispatch s decrypted)"

section \<open>Connecting and disconnecting\<close>

text \<open>
  The listeners of the monitor's \<open>error\<close> event are registered by its user. The monitor is
  a Node \<open>EventEmitter\<close>: with no \<open>error\<close> listener registered, \<open>emit('error', err)\<close> throws
  \<open>err\<close>; with listeners, it calls them and an exception of a listener leaves \<open>emit\<close>. A
  registered set of listeners is given by what it throws on an error (\<open>None\<close>: every
  listener returns).
\<close>

datatype error_listeners = NoListener | Listener "js_error \<Rightarrow> js_error option"

definition emit_error_throws :: "error_listeners \<Rightarrow> js_error \<Rightarrow> js_error option" where
  "emit_error_throws ls err = (case ls of NoListener \<Rightarrow> Some err | Listener f \<Rightarrow> f err)"

text \<open>
  The \<open>usb\<close> and \<open>os\<close> modules are outside the repository. Their answers are the
  parameters of the model: what \<open>os.platform()\<close> returns, what \<open>usb.findByIds\<close> finds,
  which error a library call throws (\<open>None\<close>: it returns) and which error it passes to its
  callback (\<open>None\<close>: success). The \<open>error\<close> listeners registered on the monitor are a
  parameter as well.
\<close>

record usb_env =
  platform :: string
  error_listeners :: error_listeners
  find_by_ids :: "int \<Rightarrow> int \<Rightarrow> usb_device option"
  open_throws :: "js_error option"
  detach_throws :: "js_error option"
  control_transfer_err :: "js_error option"
  claim_throws :: "js_error option"
  stop_poll_throws :: "js_error option"
  attach_throws :: "js_error option"
  release_err :: "js_error option"
  close_throws :: "js_error option"

text \<open>The library calls a method makes, in order, each recorded when it is made.\<close>

datatype usb_call =
    Open
  | DetachKernelDriver
  | ControlTransfer int int int int buffer
  | Claim
  | StopPoll
  | AttachKernelDriver
  | Release bool
  | Close

text \<open>
  What a method call leaves behind: the session, the events emitted (each recorded when
  \<open>emit\<close> is called), the library calls made, the argument the callback was called with
  (\<open>None\<close>: the callback was not called; \<open>Some None\<close>: called without an error), and the
  exception that left the method uncaught, if any. The listeners of the \<open>connect\<close> and
  \<open>disconnect\<close> events are taken to return.
\<close>

record outcome =
  o_session :: session
  o_events :: "event list"
  o_calls :: "usb_call list"
  o_callback :: "js_error option option"
  o_thrown :: "js_error option"

text \<open>An exception leaves the method: no callback, nothing further happens.\<close>

definition throw :: "session \<Rightarrow> event list \<Rightarrow> usb_call list \<Rightarrow> js_error \<Rightarrow> outcome" where
  "throw s evs calls e =
     \<lparr> o_session = s, o_events = evs, o_calls = calls,
       o_callback = None, o_thrown = Some e \<rparr>"

text \<open>
  \<open>this.emit('error', err); return callback(err);\<close> The callback is reached only when
  \<open>emit\<close> returns.
\<close>

definition report :: "usb_env \<Rightarrow> session \<Rightarrow> usb_call list \<Rightarrow> js_error \<Rightarrow> outcome" where
  "report env s calls e =
     (case emit_error_throws (error_listeners env) e of
        Some t \<Rightarrow> throw s [EvError e] calls t
      | None \<Rightarrow>
          \<lparr> o_session = s, o_events = [EvError e], o_calls = calls,
            o_callback = Some (Some e), o_thrown = None \<rparr>)"

text \<open>\<open>xs[0]\<close> of a JavaScript array of objects.\<close>

definition first_ref :: "'a list \<Rightarrow> 'a js_ref" where
  "first_ref xs = (case xs of [] \<Rightarrow> Undefined | x # _ \<Rightarrow> Obj x)"

subsection \<open>\<open>connect\<close>\<close>

text \<open>The control transfer and its callback.\<close>

definition connect_handshake :: "usb_env \<Rightarrow> session \<Rightarrow> usb_call list \<Rightarrow> usb_interface \<Rightarrow> outcome" where
  "connect_handshake env s calls iface =
     (let calls1 = calls @ [ControlTransfer 0x21 0x09 0x0300 0x00 (this_key s)]
      in case control_transfer_err env of
           Some err \<Rightarrow> report env s calls1 err
         | None \<Rightarrow>
             (case claim_throws env of
                Some e \<Rightarrow> throw s [] (calls1 @ [Claim]) e
              | None \<Rightarrow>
                  (let ep = first_ref (endpoints iface);
                       s1 = s\<lparr>this_endpoint := ep\<rparr>
                   in \<lparr> o_session = s1, o_events = [EvConnect ep],
                        o_calls = calls1 @ [Claim],
                        o_callback = Some None, o_thrown = None \<rparr>)))"

text \<open>\<open>if (!this._interface)\<close>, after the driver has been dealt with.\<close>

definition connect_interface :: "usb_env \<Rightarrow> session \<Rightarrow> usb_call list \<Rightarrow> outcome" where
  "connect_interface env s calls =
     (case this_interface s of
        Obj iface \<Rightarrow> connect_handshake env s calls iface
      | _ \<Rightarrow> report env s calls (Error ''Interface not found!''))"

text \<open>
  \<open>if (os.platform() === 'linux' && this._interface.isKernelDriverActive())\<close>:
  on Linux the method is called on \<open>this._interface\<close> whatever it holds.
\<close>

definition connect_driver :: "usb_env \<Rightarrow> session \<Rightarrow> usb_call list \<Rightarrow> outcome" where
  "connect_driver env s calls =
     (if platform env = ''linux'' then
        (case this_interface s of
           Obj iface \<Rightarrow>
             (if kernel_driver_active iface then
                (case detach_throws env of
                   Some e \<Rightarrow> throw s [] (calls @ [DetachKernelDriver]) e
                 | None \<Rightarrow> connect_interface env s (calls @ [DetachKernelDriver]))
              else connect_interface env s calls)
         | _ \<Rightarrow> throw s [] calls (TypeError ''isKernelDriverActive''))
      else connect_interface env s calls)"

definition connect :: "usb_env \<Rightarrow> session \<Rightarrow> outcome" where
  "connect env s =
     (case find_by_ids env (this_vid s) (this_pid s) of
        None \<Rightarrow> report env (s\<lparr>this_device := Undefined\<rparr>) [] (Error ''Device not found!'')
      | Some dev \<Rightarrow>
          (let s1 = s\<lparr>this_device := Obj dev\<rparr>
           in case open_throws env of
                Some e \<Rightarrow> throw s1 [] [Open] e
              | None \<Rightarrow>
                  connect_driver env
                    (s1\<lparr>this_interface := first_ref (interfaces dev)\<rparr>) [Open]))"

subsection \<open>\<open>disconnect\<close>\<close>

text \<open>
  The callback of \<open>release\<close>, after its \<open>if (err) this.emit('error', err)\<close>:
  \<open>this._device.close(); this.emit('disconnect'); return callback(err);\<close>
\<close>

definition disconnect_close :: "usb_env \<Rightarrow> session \<Rightarrow> event list \<Rightarrow> usb_call list \<Rightarrow> outcome" where
  "disconnect_close env s evs calls =
     (case this_device s of
        Obj dev \<Rightarrow>
          (case close_throws env of
             Some e \<Rightarrow> throw s evs (calls @ [Close]) e
           | None \<Rightarrow>
               \<lparr> o_session = s, o_events = evs @ [EvDisconnect],
                 o_calls = calls @ [Close],
                 o_callback = Some (release_err env), o_thrown = None \<rparr>)
      | _ \<Rightarrow> throw s evs calls (TypeError ''close''))"

text \<open>
  The callback of \<open>release\<close>. A release error is emitted first; the rest follows only when
  that \<open>emit\<close> returns.
\<close>

definition disconnect_released :: "usb_env \<Rightarrow> session \<Rightarrow> usb_call list \<Rightarrow> outcome" where
  "disconnect_released env s calls =
     (case release_err env of
        None \<Rightarrow> disconnect_close env s [] calls
      | Some err \<Rightarrow>
          (case emit_error_throws (error_listeners env) err of
             Some t \<Rightarrow> throw s [EvError err] calls t
           | None \<Rightarrow> disconnect_close env s [EvError err] calls))"

text \<open>\<open>this._interface.release(true, ...)\<close>\<close>

definition disconnect_release :: "usb_env \<Rightarrow> session \<Rightarrow> usb_call list \<Rightarrow> outcome" where
  "disconnect_release env s calls =
     (case this_interface s of
        Obj iface \<Rightarrow> disconnect_released env s (calls @ [Release True])
      | _ \<Rightarrow> throw s [] calls (TypeError ''release''))"

text \<open>The callback of \<open>stopPoll\<close>.\<close>

definition disconnect_stopped :: "usb_env \<Rightarrow> session \<Rightarrow> usb_call list \<Rightarrow> outcome" where
  "disconnect_stopped env s calls =
     (if platform env = ''linux'' then
        (case this_interface s of
           Obj iface \<Rightarrow>
             (case attach_throws env of
                Some e \<Rightarrow> throw s [] (calls @ [AttachKernelDriver]) e
              | None \<Rightarrow> disconnect_release env s (calls @ [AttachKernelDriver]))
         | _ \<Rightarrow> throw s [] calls (TypeError ''attachKernelDriver''))
      else disconnect_release env s calls)"

definition disconnect :: "usb_env \<Rightarrow> session \<Rightarrow> outcome" where
  "disconnect env s =
     (case this_endpoint s of
        Obj ep \<Rightarrow>
          (case stop_poll_throws env of
             Some e \<Rightarrow> throw s [] [StopPoll] e
           | None \<Rightarrow> disconnect_stopped env s [StopPoll])
      | _ \<Rightarrow> throw s [] [] (TypeError ''stopPoll''))"

section \<open>Concrete inputs used to exercise the theorems\<close>

definition sample_interface :: usb_interface where
  "sample_interface = \<lparr> kernel_driver_active = True, endpoints = [0x81] \<rparr>"

definition sample_device :: usb_device where
  "sample_device = \<lparr> interfaces = [sample_interface] \<rparr>"

text \<open>
  A Linux host with the monitor attached, on which every library call succeeds, and an
  \<open>error\<close> listener that returns.
\<close>

definition sample_env :: usb_env where
  "sample_env =
     \<lparr> platform = ''linux'',
       error_listeners = Listener (\<lambda>e. None),
       find_by_ids = (\<lambda>v p. if v = 0x04D9 \<and> p = 0xA052 then Some sample_device else None),
       open_throws = None,
       detach_throws = None,
       control_transfer_err = None,
       claim_throws = None,
       stop_poll_throws = None,
       attach_throws = None,
       release_err = None,
       close_throws = None \<rparr>"

section \<open>Facts about the frame arithmetic\<close>

lemma js_and_255: "js_and (Some x) (Some 0xff) = x mod 256"
proof -
  have m: "(255 :: 32 word) = mask 8" by (simp add: mask_eq_exp_minus_1)
  have a: "(word_of_int x AND 255 :: 32 word) = word_of_int (x mod 256)"
    unfolding m by (simp add: and_mask_wi take_bit_eq_mod)
  have "sint (word_of_int (x mod 256) :: 32 word) = signed_take_bit 31 (x mod 256)"
    by (simp add: sint_sbintrunc')
  also have "\<dots> = x mod 256"
    by (rule signed_take_bit_int_eq_self) (simp_all add: order_trans [of _ 0] less_trans [of _ 256])
  finally show ?thesis by (simp add: js_and_def to_int32_def a)
qed

lemma frame_sum_eq:
  assumes "3 \<le> length d"
  shows "frame_sum d = (d ! 0 + d ! 1 + d ! 2) mod 256"
proof -
  obtain a b c r where "d = a # b # c # r"
    using assms by (cases d; cases "tl d"; cases "tl (tl d)") auto
  then show ?thesis by (simp add: frame_sum_def js_and_255)
qed

lemma length_decrypt: "length (decrypt key data) = 8"
  by (simp add: decrypt_def cstate_def Let_def)

lemma length_decode: "length data = 8 \<Longrightarrow> length (decode key data) = 8"
  by (simp add: decode_def length_decrypt)

lemma checksum_error_iff:
  assumes "length d = 8"
  shows "checksum_error d \<longleftrightarrow> \<not> (d ! 4 = 0x0d \<and> d ! 3 = (d ! 0 + d ! 1 + d ! 2) mod 256)"
  using assms by (auto simp: checksum_error_def arr_get_def frame_sum_eq)

lemma dispatch_no_error: "EvError e \<notin> set (snd (dispatch s d))"
  by (simp add: dispatch_def Let_def)

lemma temp_of_4500: "temp_of 0x1194 = 81 / 10"
  by code_simp

lemma hum_of_4900: "hum_of 0x1324 = 49"
  by (simp add: hum_of_def)

section \<open>The cipher on the example vector\<close>

text \<open>
  C1. Decrypting the raw frame of eight zero bytes with the key
  C4 C6 C0 92 40 23 DC 96 gives exactly the eight bytes 54 51 82 3C 41 71 E8 3C.
\<close>

theorem decrypt_zero_frame:
  "decrypt fixed_key [0, 0, 0, 0, 0, 0, 0, 0] =
     [0x54, 0x51, 0x82, 0x3C, 0x41, 0x71, 0xE8, 0x3C]"
  by code_simp

section \<open>The validation gate\<close>

lemma on_data_rejected:
  "checksum_error (decode (this_key s) data) \<Longrightarrow>
     on_data s data = (s, [EvError (Error ''Checksum Error.'')])"
  by (simp add: on_data_def)

lemma on_data_accepted:
  "\<not> checksum_error (decode (this_key s) data) \<Longrightarrow>
     on_data s data = dispatch s (decode (this_key s) data)"
  by (simp add: on_data_def)

text \<open>
  C2. For an 8-byte frame with decoded bytes \<open>d\<close>, the handler accepts the frame (emits
  no checksum error) exactly when \<open>d[4] = 0x0D\<close> and \<open>d[3] = (d[0] + d[1] + d[2]) mod 256\<close>.
  On either violation it emits the checksum error as its only event and returns the
  session as it was, so no cached reading changes and no reading event is emitted.
\<close>

theorem frame_validation_gate:
  assumes "length data = 8" and "d = decode (this_key s) data"
  shows "(EvError (Error ''Checksum Error.'') \<notin> set (snd (on_data s data)))
           = (d ! 4 = 0x0d \<and> d ! 3 = (d ! 0 + d ! 1 + d ! 2) mod 256)
         \<and> (\<not> (d ! 4 = 0x0d \<and> d ! 3 = (d ! 0 + d ! 1 + d ! 2) mod 256) \<longrightarrow>
              on_data s data = (s, [EvError (Error ''Checksum Error.'')]))"
proof -
  have len: "length d = 8"
    using assms by (simp add: length_decode)
  show ?thesis
  proof (cases "checksum_error d")
    case True
    then have "on_data s data = (s, [EvError (Error ''Checksum Error.'')])"
      using assms(2) by (simp add: on_data_rejected)
    with True show ?thesis
      using checksum_error_iff [OF len] by simp
  next
    case False
    then have "on_data s data = dispatch s d"
      using assms(2) by (simp add: on_data_accepted)
    with False show ?thesis
      using checksum_error_iff [OF len] dispatch_no_error [of _ s d] by simp
  qed
qed

theorem frame_validation_gate_witness:
  "on_data (constructor None) [0, 0, 0, 0, 0, 0, 0, 0]
     = (constructor None, [EvError (Error ''Checksum Error.'')])
   \<and> EvError (Error ''Checksum Error.'')
       \<notin> set (snd (on_data (constructor None) [0xB4, 0xE4, 0x66, 0x20, 0x8B, 0x46, 0xBF, 0x92]))"
proof -
  let ?s = "constructor None"
  let ?z = "[0x54, 0x51, 0x82, 0x3C, 0x41, 0x71, 0xE8, 0x3C :: int]"
  let ?c = "[0x50, 0x02, 0x58, 0xAA, 0x0D, 0, 0, 0 :: int]"
  have z1: "length [0, 0, 0, 0, 0, 0, 0, 0 :: 8 word] = 8"
    by simp
  have z2: "?z = decode (this_key ?s) [0, 0, 0, 0, 0, 0, 0, 0]"
    by code_simp
  have z3: "\<not> (?z ! 4 = 0x0d \<and> ?z ! 3 = (?z ! 0 + ?z ! 1 + ?z ! 2) mod 256)"
    by simp
  have c1: "length [0xB4, 0xE4, 0x66, 0x20, 0x8B, 0x46, 0xBF, 0x92 :: 8 word] = 8"
    by simp
  have c2: "?c = decode (this_key ?s) [0xB4, 0xE4, 0x66, 0x20, 0x8B, 0x46, 0xBF, 0x92]"
    by code_simp
  have c3: "?c ! 4 = 0x0d \<and> ?c ! 3 = (?c ! 0 + ?c ! 1 + ?c ! 2) mod 256"
    by simp
  from frame_validation_gate [OF z1 z2] z3
  have "on_data ?s [0, 0, 0, 0, 0, 0, 0, 0] = (?s, [EvError (Error ''Checksum Error.'')])"
    by blast
  moreover from frame_validation_gate [OF c1 c2] c3
  have "EvError (Error ''Checksum Error.'')
          \<notin> set (snd (on_data ?s [0xB4, 0xE4, 0x66, 0x20, 0x8B, 0x46, 0xBF, 0x92]))"
    by blast
  ultimately show ?thesis by blast
qed

section \<open>The plaintext bypass\<close>

text \<open>
  C3. An 8-byte raw frame whose byte 4 is \<open>0x0D\<close> is not decrypted: the decoded bytes are
  the raw bytes. The checksum is still checked on them: if raw byte 3 is not the low
  byte of the sum of raw bytes 0 to 2 the frame is rejected with the checksum error, and
  only otherwise does it reach the opcode switch.
\<close>

theorem plaintext_bypass:
  assumes "length data = 8" and "data ! 4 = 0x0d"
  shows "decode (this_key s) data = map uint data
         \<and> (uint (data ! 3) \<noteq> (uint (data ! 0) + uint (data ! 1) + uint (data ! 2)) mod 256 \<longrightarrow>
              on_data s data = (s, [EvError (Error ''Checksum Error.'')]))
         \<and> (uint (data ! 3) = (uint (data ! 0) + uint (data ! 1) + uint (data ! 2)) mod 256 \<longrightarrow>
              on_data s data = dispatch s (map uint data))"
proof -
  have dec: "decode (this_key s) data = map uint data"
    using assms by (simp add: decode_def buf_get_def)
  have len: "length (map uint data) = 8"
    using assms by simp
  have "checksum_error (map uint data)
          \<longleftrightarrow> uint (data ! 3) \<noteq> (uint (data ! 0) + uint (data ! 1) + uint (data ! 2)) mod 256"
    using checksum_error_iff [OF len] assms by simp
  then show ?thesis
    using dec on_data_rejected [of s data] on_data_accepted [of s data] by auto
qed

theorem plaintext_bypass_witness:
  "length [0x41, 0x13, 0x24, 0x79, 0x0D, 0, 0, 0 :: 8 word] = 8
   \<and> [0x41, 0x13, 0x24, 0x79, 0x0D, 0, 0, 0 :: 8 word] ! 4 = 0x0d
   \<and> decode (this_key (constructor None)) [0x41, 0x13, 0x24, 0x79, 0x0D, 0, 0, 0]
       = [0x41, 0x13, 0x24, 0x79, 0x0D, 0, 0, 0]
   \<and> on_data (constructor None) [0x41, 0x13, 0x24, 0x79, 0x0D, 0, 0, 0]
       = (constructor None, [EvError (Error ''Checksum Error.'')])
   \<and> on_data (constructor None) [0x41, 0x13, 0x24, 0x78, 0x0D, 0, 0, 0]
       = dispatch (constructor None) [0x41, 0x13, 0x24, 0x78, 0x0D, 0, 0, 0]"
proof -
  let ?bad = "[0x41, 0x13, 0x24, 0x79, 0x0D, 0, 0, 0 :: 8 word]"
  let ?good = "[0x41, 0x13, 0x24, 0x78, 0x0D, 0, 0, 0 :: 8 word]"
  have b1: "length ?bad = 8" and b2: "?bad ! 4 = 0x0d"
    by simp_all
  have g1: "length ?good = 8" and g2: "?good ! 4 = 0x0d"
    by simp_all
  have b3: "uint (?bad ! 3) \<noteq> (uint (?bad ! 0) + uint (?bad ! 1) + uint (?bad ! 2)) mod 256"
    by simp
  have g3: "uint (?good ! 3) = (uint (?good ! 0) + uint (?good ! 1) + uint (?good ! 2)) mod 256"
    by simp
  have mb: "map uint ?bad = [0x41, 0x13, 0x24, 0x79, 0x0D, 0, 0, 0]"
    and mg: "map uint ?good = [0x41, 0x13, 0x24, 0x78, 0x0D, 0, 0, 0]"
    by simp_all
  from plaintext_bypass [OF b1 b2, of "constructor None"] b3
  have "decode (this_key (constructor None)) ?bad = map uint ?bad"
    and "on_data (constructor None) ?bad
           = (constructor None, [EvError (Error ''Checksum Error.'')])"
    by blast+
  moreover from plaintext_bypass [OF g1 g2, of "constructor None"] g3
  have "on_data (constructor None) ?good = dispatch (constructor None) (map uint ?good)"
    by blast
  ultimately show ?thesis
    using b1 b2 mb mg by (simp only: simp_thms)
qed

section \<open>The opcode switch\<close>

lemma frame_value_4500: "frame_value [0x42, 0x11, 0x94, 0xE7, 0x0D, 0, 0, 0] = 0x1194"
  by code_simp

lemma frame_value_600: "frame_value [0x50, 0x02, 0x58, 0xAA, 0x0D, 0, 0, 0] = 0x0258"
  by code_simp

lemma frame_value_4900: "frame_value [0x41, 0x13, 0x24, 0x78, 0x0D, 0, 0, 0] = 0x1324"
  by code_simp

lemma dispatch_temp:
  "arr_get d 0 = Some 0x42 \<Longrightarrow>
     dispatch s d = (s\<lparr>this_temp := Some (temp_of (frame_value d))\<rparr>,
                     [EvTemp (temp_of (frame_value d))])"
  by (simp add: dispatch_def Let_def)

lemma dispatch_co2:
  "arr_get d 0 = Some 0x50 \<Longrightarrow>
     dispatch s d = (s\<lparr>this_co2 := Some (frame_value d)\<rparr>, [EvCo2 (frame_value d)])"
  by (simp add: dispatch_def Let_def)

lemma dispatch_hum:
  "arr_get d 0 = Some 0x41 \<Longrightarrow>
     dispatch s d = (s\<lparr>this_hum := Some (hum_of (frame_value d))\<rparr>,
                     [EvHum (hum_of (frame_value d))])"
  by (simp add: dispatch_def Let_def)

lemma dispatch_other:
  "arr_get d 0 \<noteq> Some 0x42 \<Longrightarrow> arr_get d 0 \<noteq> Some 0x50 \<Longrightarrow> arr_get d 0 \<noteq> Some 0x41 \<Longrightarrow>
     dispatch s d = (s, [])"
  by (simp add: dispatch_def Let_def)

lemma on_data_valid:
  assumes "length data = 8" and "d = decode (this_key s) data"
    and "d ! 4 = 0x0d" and "d ! 3 = (d ! 0 + d ! 1 + d ! 2) mod 256"
  shows "on_data s data = dispatch s d" and "arr_get d 0 = Some (d ! 0)"
proof -
  have len: "length d = 8"
    using assms(1,2) by (simp add: length_decode)
  then have "\<not> checksum_error d"
    using assms(3,4) by (simp add: checksum_error_iff)
  then show "on_data s data = dispatch s d"
    using assms(2) by (simp add: on_data_accepted)
  show "arr_get d 0 = Some (d ! 0)"
    using len by (simp add: arr_get_def)
qed

text \<open>
  C4, with the temperature as the code computes it. For a validated frame, opcode
  \<open>0x42\<close> with value \<open>0x1194\<close> (4500) caches and emits the temperature 8.10
  (\<open>4500 / 16 - 273.15\<close> to two decimals); opcode \<open>0x50\<close> with value \<open>0x0258\<close> caches and
  emits the CO2 reading 600; opcode \<open>0x41\<close> with value \<open>0x1324\<close> caches and emits the
  humidity 49.
\<close>

theorem opcode_examples:
  assumes "length data = 8" and "d = decode (this_key s) data"
    and "d ! 4 = 0x0d" and "d ! 3 = (d ! 0 + d ! 1 + d ! 2) mod 256"
  shows "(d ! 0 = 0x42 \<and> frame_value d = 0x1194 \<longrightarrow>
            on_data s data = (s\<lparr>this_temp := Some (81 / 10)\<rparr>, [EvTemp (81 / 10)]))
         \<and> (d ! 0 = 0x50 \<and> frame_value d = 0x0258 \<longrightarrow>
            on_data s data = (s\<lparr>this_co2 := Some 600\<rparr>, [EvCo2 600]))
         \<and> (d ! 0 = 0x41 \<and> frame_value d = 0x1324 \<longrightarrow>
            on_data s data = (s\<lparr>this_hum := Some 49\<rparr>, [EvHum 49]))"
proof -
  note v = on_data_valid [OF assms]
  have "on_data s data = (s\<lparr>this_temp := Some (81 / 10)\<rparr>, [EvTemp (81 / 10)])"
    if "d ! 0 = 0x42" and "frame_value d = 0x1194"
    using that v dispatch_temp [of d s] temp_of_4500 by simp
  moreover have "on_data s data = (s\<lparr>this_co2 := Some 600\<rparr>, [EvCo2 600])"
    if "d ! 0 = 0x50" and "frame_value d = 0x0258"
    using that v dispatch_co2 [of d s] by simp
  moreover have "on_data s data = (s\<lparr>this_hum := Some 49\<rparr>, [EvHum 49])"
    if "d ! 0 = 0x41" and "frame_value d = 0x1324"
    using that v dispatch_hum [of d s] hum_of_4900 by simp
  ultimately show ?thesis by blast
qed

theorem opcode_examples_witness:
  "on_data (constructor None) [0x42, 0x11, 0x94, 0xE7, 0x0D, 0, 0, 0]
     = ((constructor None)\<lparr>this_temp := Some (81 / 10)\<rparr>, [EvTemp (81 / 10)])
   \<and> on_data (constructor None) [0x50, 0x02, 0x58, 0xAA, 0x0D, 0, 0, 0]
     = ((constructor None)\<lparr>this_co2 := Some 600\<rparr>, [EvCo2 600])
   \<and> on_data (constructor None) [0x41, 0x13, 0x24, 0x78, 0x0D, 0, 0, 0]
     = ((constructor None)\<lparr>this_hum := Some 49\<rparr>, [EvHum 49])"
proof -
  let ?s = "constructor None"
  have t: "length [0x42, 0x11, 0x94, 0xE7, 0x0D, 0, 0, 0 :: 8 word] = 8"
    "[0x42, 0x11, 0x94, 0xE7, 0x0D, 0, 0, 0] = decode (this_key ?s) [0x42, 0x11, 0x94, 0xE7, 0x0D, 0, 0, 0]"
    "[0x42, 0x11, 0x94, 0xE7, 0x0D, 0, 0, 0 :: int] ! 4 = 0x0d"
    "[0x42, 0x11, 0x94, 0xE7, 0x0D, 0, 0, 0 :: int] ! 3
       = ([0x42, 0x11, 0x94, 0xE7, 0x0D, 0, 0, 0] ! 0 + [0x42, 0x11, 0x94, 0xE7, 0x0D, 0, 0, 0] ! 1
          + [0x42, 0x11, 0x94, 0xE7, 0x0D, 0, 0, 0] ! 2) mod 256"
    by code_simp+
  have c: "length [0x50, 0x02, 0x58, 0xAA, 0x0D, 0, 0, 0 :: 8 word] = 8"
    "[0x50, 0x02, 0x58, 0xAA, 0x0D, 0, 0, 0] = decode (this_key ?s) [0x50, 0x02, 0x58, 0xAA, 0x0D, 0, 0, 0]"
    "[0x50, 0x02, 0x58, 0xAA, 0x0D, 0, 0, 0 :: int] ! 4 = 0x0d"
    "[0x50, 0x02, 0x58, 0xAA, 0x0D, 0, 0, 0 :: int] ! 3
       = ([0x50, 0x02, 0x58, 0xAA, 0x0D, 0, 0, 0] ! 0 + [0x50, 0x02, 0x58, 0xAA, 0x0D, 0, 0, 0] ! 1
          + [0x50, 0x02, 0x58, 0xAA, 0x0D, 0, 0, 0] ! 2) mod 256"
    by code_simp+
  have h: "length [0x41, 0x13, 0x24, 0x78, 0x0D, 0, 0, 0 :: 8 word] = 8"
    "[0x41, 0x13, 0x24, 0x78, 0x0D, 0, 0, 0] = decode (this_key ?s) [0x41, 0x13, 0x24, 0x78, 0x0D, 0, 0, 0]"
    "[0x41, 0x13, 0x24, 0x78, 0x0D, 0, 0, 0 :: int] ! 4 = 0x0d"
    "[0x41, 0x13, 0x24, 0x78, 0x0D, 0, 0, 0 :: int] ! 3
       = ([0x41, 0x13, 0x24, 0x78, 0x0D, 0, 0, 0] ! 0 + [0x41, 0x13, 0x24, 0x78, 0x0D, 0, 0, 0] ! 1
          + [0x41, 0x13, 0x24, 0x78, 0x0D, 0, 0, 0] ! 2) mod 256"
    by code_simp+
  have ops: "[0x42, 0x11, 0x94, 0xE7, 0x0D, 0, 0, 0 :: int] ! 0 = 0x42"
    "[0x50, 0x02, 0x58, 0xAA, 0x0D, 0, 0, 0 :: int] ! 0 = 0x50"
    "[0x41, 0x13, 0x24, 0x78, 0x0D, 0, 0, 0 :: int] ! 0 = 0x41"
    by simp_all
  from opcode_examples [OF t] ops(1) frame_value_4500
  have "on_data ?s [0x42, 0x11, 0x94, 0xE7, 0x0D, 0, 0, 0]
          = (?s\<lparr>this_temp := Some (81 / 10)\<rparr>, [EvTemp (81 / 10)])"
    by blast
  moreover from opcode_examples [OF c] ops(2) frame_value_600
  have "on_data ?s [0x50, 0x02, 0x58, 0xAA, 0x0D, 0, 0, 0]
          = (?s\<lparr>this_co2 := Some 600\<rparr>, [EvCo2 600])"
    by blast
  moreover from opcode_examples [OF h] ops(3) frame_value_4900
  have "on_data ?s [0x41, 0x13, 0x24, 0x78, 0x0D, 0, 0, 0]
          = (?s\<lparr>this_hum := Some 49\<rparr>, [EvHum 49])"
    by blast
  ultimately show ?thesis by blast
qed

text \<open>
  The claim as the specification words it fails: the validated frame with opcode \<open>0x42\<close>
  and value \<open>0x1194\<close> does not leave 7.10 in the temperature field.
\<close>

theorem opcode_temperature_counterexample:
  "\<not> (this_temp (fst (on_data (constructor None) [0x42, 0x11, 0x94, 0xE7, 0x0D, 0, 0, 0]))
        = Some (71 / 10))"
  by code_simp

text \<open>
  C5. Processing a validated frame changes at most one of the three cached readings and
  emits at most one event: opcode \<open>0x42\<close> changes only the temperature and emits it,
  \<open>0x50\<close> only the CO2 reading, \<open>0x41\<close> only the humidity, and any other opcode leaves the
  session as it was and emits nothing, so no error either.
\<close>

theorem one_reading_per_frame:
  assumes "length data = 8" and "d = decode (this_key s) data"
    and "d ! 4 = 0x0d" and "d ! 3 = (d ! 0 + d ! 1 + d ! 2) mod 256"
  shows "length (snd (on_data s data)) \<le> 1
         \<and> ((this_co2 (fst (on_data s data)) = this_co2 s
               \<and> this_hum (fst (on_data s data)) = this_hum s)
             \<or> (this_temp (fst (on_data s data)) = this_temp s
               \<and> this_hum (fst (on_data s data)) = this_hum s)
             \<or> (this_temp (fst (on_data s data)) = this_temp s
               \<and> this_co2 (fst (on_data s data)) = this_co2 s))
         \<and> (d ! 0 = 0x42 \<longrightarrow>
              (\<exists>t. on_data s data = (s\<lparr>this_temp := Some t\<rparr>, [EvTemp t])))
         \<and> (d ! 0 = 0x50 \<longrightarrow>
              (\<exists>c. on_data s data = (s\<lparr>this_co2 := Some c\<rparr>, [EvCo2 c])))
         \<and> (d ! 0 = 0x41 \<longrightarrow>
              (\<exists>h. on_data s data = (s\<lparr>this_hum := Some h\<rparr>, [EvHum h])))
         \<and> (d ! 0 \<noteq> 0x42 \<and> d ! 0 \<noteq> 0x50 \<and> d ! 0 \<noteq> 0x41 \<longrightarrow>
              on_data s data = (s, []))"
proof -
  note v = on_data_valid [OF assms]
  consider (temp) "d ! 0 = 0x42" | (co2) "d ! 0 = 0x50" | (hum) "d ! 0 = 0x41"
    | (other) "d ! 0 \<noteq> 0x42" "d ! 0 \<noteq> 0x50" "d ! 0 \<noteq> 0x41"
    by blast
  then show ?thesis
  proof cases
    case temp
    then have "on_data s data = (s\<lparr>this_temp := Some (temp_of (frame_value d))\<rparr>,
                                  [EvTemp (temp_of (frame_value d))])"
      using v dispatch_temp [of d s] by simp
    with temp show ?thesis by simp
  next
    case co2
    then have "on_data s data = (s\<lparr>this_co2 := Some (frame_value d)\<rparr>,
                                  [EvCo2 (frame_value d)])"
      using v dispatch_co2 [of d s] by simp
    with co2 show ?thesis by simp
  next
    case hum
    then have "on_data s data = (s\<lparr>this_hum := Some (hum_of (frame_value d))\<rparr>,
                                  [EvHum (hum_of (frame_value d))])"
      using v dispatch_hum [of d s] by simp
    with hum show ?thesis by simp
  next
    case other
    then have "on_data s data = (s, [])"
      using v dispatch_other [of d s] by simp
    with other show ?thesis by simp
  qed
qed

theorem one_reading_per_frame_witness:
  "(\<exists>t. on_data (constructor None) [0x42, 0x11, 0x94, 0xE7, 0x0D, 0, 0, 0]
          = ((constructor None)\<lparr>this_temp := Some t\<rparr>, [EvTemp t]))
   \<and> on_data (constructor None) [0x6D, 0x00, 0x01, 0x6E, 0x0D, 0, 0, 0]
       = (constructor None, [])"
proof -
  let ?s = "constructor None"
  have t: "length [0x42, 0x11, 0x94, 0xE7, 0x0D, 0, 0, 0 :: 8 word] = 8"
    "[0x42, 0x11, 0x94, 0xE7, 0x0D, 0, 0, 0] = decode (this_key ?s) [0x42, 0x11, 0x94, 0xE7, 0x0D, 0, 0, 0]"
    "[0x42, 0x11, 0x94, 0xE7, 0x0D, 0, 0, 0 :: int] ! 4 = 0x0d"
    "[0x42, 0x11, 0x94, 0xE7, 0x0D, 0, 0, 0 :: int] ! 3
       = ([0x42, 0x11, 0x94, 0xE7, 0x0D, 0, 0, 0] ! 0 + [0x42, 0x11, 0x94, 0xE7, 0x0D, 0, 0, 0] ! 1
          + [0x42, 0x11, 0x94, 0xE7, 0x0D, 0, 0, 0] ! 2) mod 256"
    by code_simp+
  have u: "length [0x6D, 0x00, 0x01, 0x6E, 0x0D, 0, 0, 0 :: 8 word] = 8"
    "[0x6D, 0x00, 0x01, 0x6E, 0x0D, 0, 0, 0] = decode (this_key ?s) [0x6D, 0x00, 0x01, 0x6E, 0x0D, 0, 0, 0]"
    "[0x6D, 0x00, 0x01, 0x6E, 0x0D, 0, 0, 0 :: int] ! 4 = 0x0d"
    "[0x6D, 0x00, 0x01, 0x6E, 0x0D, 0, 0, 0 :: int] ! 3
       = ([0x6D, 0x00, 0x01, 0x6E, 0x0D, 0, 0, 0] ! 0 + [0x6D, 0x00, 0x01, 0x6E, 0x0D, 0, 0, 0] ! 1
          + [0x6D, 0x00, 0x01, 0x6E, 0x0D, 0, 0, 0] ! 2) mod 256"
    by code_simp+
  have ops: "[0x42, 0x11, 0x94, 0xE7, 0x0D, 0, 0, 0 :: int] ! 0 = 0x42"
    "[0x6D, 0x00, 0x01, 0x6E, 0x0D, 0, 0, 0 :: int] ! 0 \<noteq> 0x42
      \<and> [0x6D, 0x00, 0x01, 0x6E, 0x0D, 0, 0, 0 :: int] ! 0 \<noteq> 0x50
      \<and> [0x6D, 0x00, 0x01, 0x6E, 0x0D, 0, 0, 0 :: int] ! 0 \<noteq> 0x41"
    by simp_all
  from one_reading_per_frame [OF t] ops(1)
  have "\<exists>t. on_data ?s [0x42, 0x11, 0x94, 0xE7, 0x0D, 0, 0, 0]
          = (?s\<lparr>this_temp := Some t\<rparr>, [EvTemp t])"
    by blast
  moreover from one_reading_per_frame [OF u] ops(2)
  have "on_data ?s [0x6D, 0x00, 0x01, 0x6E, 0x0D, 0, 0, 0] = (?s, [])"
    by blast
  ultimately show ?thesis by blast
qed

section \<open>The constructor's defaults\<close>

text \<open>
  C10. A vendor id of zero given in the options is replaced by the default \<open>0x04D9\<close>, and
  a product id of zero by the default \<open>0xA052\<close>; whatever the options are, the session
  never holds a zero vendor or product id.
\<close>

theorem zero_id_falls_back:
  "this_vid (constructor (Some (opt\<lparr>vid := Some 0\<rparr>))) = 0x04D9
   \<and> this_pid (constructor (Some (opt\<lparr>pid := Some 0\<rparr>))) = 0xA052
   \<and> this_vid (constructor opts) \<noteq> 0
   \<and> this_pid (constructor opts) \<noteq> 0"
  by (simp add: constructor_def num_or_default_def split: option.splits)

section \<open>Connecting\<close>

lemma connect_found:
  assumes "find_by_ids env (this_vid s) (this_pid s) = Some dev"
    and "open_throws env = None"
  shows "connect env s =
           connect_driver env (s\<lparr>this_device := Obj dev,
                                  this_interface := first_ref (interfaces dev)\<rparr>) [Open]"
  using assms by (simp add: connect_def)

lemma connect_handshake_failed:
  assumes "control_transfer_err env = Some err"
  shows "connect_interface env (s\<lparr>this_interface := Obj iface\<rparr>) calls =
           report env (s\<lparr>this_interface := Obj iface\<rparr>)
             (calls @ [ControlTransfer 0x21 0x09 0x0300 0x00 (this_key s)]) err"
  using assms by (simp add: connect_interface_def connect_handshake_def)

lemma report_fields:
  "o_session (report env s calls e) = s"
  "o_events (report env s calls e) = [EvError e]"
  "o_calls (report env s calls e) = calls"
  by (simp_all add: report_def throw_def split: option.splits)

lemma report_returns:
  "emit_error_throws (error_listeners env) e = None \<Longrightarrow>
     o_callback (report env s calls e) = Some (Some e) \<and> o_thrown (report env s calls e) = None"
  by (simp add: report_def)

lemma report_throws:
  "emit_error_throws (error_listeners env) e = Some t \<Longrightarrow>
     o_callback (report env s calls e) = None \<and> o_thrown (report env s calls e) = Some t"
  by (simp add: report_def throw_def)

text \<open>
  C6, as the code behaves. When the device is found and opened, its first interface
  exists, and the control transfer fails with \<open>err\<close>, \<open>connect\<close> emits the error event,
  emits no connect event and does not claim the interface. The endpoint field and the
  cached readings are as before, but the device and interface fields now hold the found
  device and its first interface. When the \<open>error\<close> listeners return, the callback is
  called with \<open>err\<close> and nothing is thrown; when emitting the error throws \<open>t\<close> (no \<open>error\<close>
  listener is registered, or a listener throws), \<open>t\<close> leaves \<open>connect\<close> and the callback is
  not called.
\<close>

theorem connect_handshake_failure:
  assumes "find_by_ids env (this_vid s) (this_pid s) = Some dev"
    and "open_throws env = None"
    and "interfaces dev = iface # rest"
    and "detach_throws env = None"
    and "control_transfer_err env = Some err"
  shows "o_events (connect env s) = [EvError err]
         \<and> Claim \<notin> set (o_calls (connect env s))
         \<and> o_session (connect env s) = s\<lparr>this_device := Obj dev, this_interface := Obj iface\<rparr>
         \<and> (emit_error_throws (error_listeners env) err = None \<longrightarrow>
              o_callback (connect env s) = Some (Some err) \<and> o_thrown (connect env s) = None)
         \<and> (emit_error_throws (error_listeners env) err = Some t \<longrightarrow>
              o_callback (connect env s) = None \<and> o_thrown (connect env s) = Some t)"
proof -
  let ?s = "s\<lparr>this_device := Obj dev\<rparr>"
  let ?calls = "(if platform env = ''linux'' \<and> kernel_driver_active iface
                 then [Open, DetachKernelDriver] else [Open])
                @ [ControlTransfer 0x21 0x09 0x0300 0x00 (this_key s)]"
  have "connect env s = connect_driver env (?s\<lparr>this_interface := Obj iface\<rparr>) [Open]"
    using connect_found [OF assms(1,2)] assms(3) by (simp add: first_ref_def)
  also have "\<dots> = report env (?s\<lparr>this_interface := Obj iface\<rparr>) ?calls err"
    using assms(4) connect_handshake_failed [OF assms(5), where s = "?s" and iface = iface]
    by (simp add: connect_driver_def)
  finally have c: "connect env s = report env (?s\<lparr>this_interface := Obj iface\<rparr>) ?calls err" .
  have "o_events (connect env s) = [EvError err]"
    by (simp add: c report_fields)
  moreover have "Claim \<notin> set (o_calls (connect env s))"
    by (simp add: c report_fields)
  moreover have "o_session (connect env s)
                   = s\<lparr>this_device := Obj dev, this_interface := Obj iface\<rparr>"
    by (simp add: c report_fields)
  moreover have "o_callback (connect env s) = Some (Some err) \<and> o_thrown (connect env s) = None"
    if "emit_error_throws (error_listeners env) err = None"
    using report_returns [OF that] by (simp add: c)
  moreover have "o_callback (connect env s) = None \<and> o_thrown (connect env s) = Some t"
    if "emit_error_throws (error_listeners env) err = Some t"
    using report_throws [OF that] by (simp add: c)
  ultimately show ?thesis by blast
qed

theorem connect_handshake_failure_witness:
  "o_events (connect (sample_env\<lparr>control_transfer_err := Some (LibUSBError (- 1))\<rparr>)
                     (constructor None)) = [EvError (LibUSBError (- 1))]
   \<and> o_session (connect (sample_env\<lparr>control_transfer_err := Some (LibUSBError (- 1))\<rparr>)
                        (constructor None))
       = (constructor None)\<lparr>this_device := Obj sample_device,
                              this_interface := Obj sample_interface\<rparr>
   \<and> o_callback (connect (sample_env\<lparr>control_transfer_err := Some (LibUSBError (- 1))\<rparr>)
                         (constructor None)) = Some (Some (LibUSBError (- 1)))
   \<and> o_thrown (connect (sample_env\<lparr>control_transfer_err := Some (LibUSBError (- 1))\<rparr>)
                       (constructor None)) = None
   \<and> o_callback (connect (sample_env\<lparr>control_transfer_err := Some (LibUSBError (- 1)),
                                      error_listeners := NoListener\<rparr>)
                         (constructor None)) = None
   \<and> o_thrown (connect (sample_env\<lparr>control_transfer_err := Some (LibUSBError (- 1)),
                                    error_listeners := NoListener\<rparr>)
                       (constructor None)) = Some (LibUSBError (- 1))"
proof -
  let ?env = "sample_env\<lparr>control_transfer_err := Some (LibUSBError (- 1))\<rparr>"
  let ?bare = "sample_env\<lparr>control_transfer_err := Some (LibUSBError (- 1)),
                           error_listeners := NoListener\<rparr>"
  let ?s = "constructor None"
  have h1: "find_by_ids ?env (this_vid ?s) (this_pid ?s) = Some sample_device"
    by (simp add: sample_env_def constructor_def num_or_default_def)
  have h2: "open_throws ?env = None"
    by (simp add: sample_env_def)
  have h3: "interfaces sample_device = sample_interface # []"
    by (simp add: sample_device_def)
  have h4: "detach_throws ?env = None"
    by (simp add: sample_env_def)
  have h5: "control_transfer_err ?env = Some (LibUSBError (- 1))"
    by simp
  have h6: "emit_error_throws (error_listeners ?env) (LibUSBError (- 1)) = None"
    by (simp add: sample_env_def emit_error_throws_def)
  have b1: "find_by_ids ?bare (this_vid ?s) (this_pid ?s) = Some sample_device"
    by (simp add: sample_env_def constructor_def num_or_default_def)
  have b2: "open_throws ?bare = None"
    by (simp add: sample_env_def)
  have b4: "detach_throws ?bare = None"
    by (simp add: sample_env_def)
  have b5: "control_transfer_err ?bare = Some (LibUSBError (- 1))"
    by simp
  have b6: "emit_error_throws (error_listeners ?bare) (LibUSBError (- 1))
              = Some (LibUSBError (- 1))"
    by (simp add: emit_error_throws_def)
  from connect_handshake_failure [OF h1 h2 h3 h4 h5] h6
  have "o_events (connect ?env ?s) = [EvError (LibUSBError (- 1))]"
    and "o_session (connect ?env ?s)
           = ?s\<lparr>this_device := Obj sample_device, this_interface := Obj sample_interface\<rparr>"
    and "o_callback (connect ?env ?s) = Some (Some (LibUSBError (- 1)))"
    and "o_thrown (connect ?env ?s) = None"
    by blast+
  moreover from connect_handshake_failure [OF b1 b2 h3 b4 b5, where t = "LibUSBError (- 1)"] b6
  have "o_callback (connect ?bare ?s) = None"
    and "o_thrown (connect ?bare ?s) = Some (LibUSBError (- 1))"
    by blast+
  ultimately show ?thesis by blast
qed

text \<open>
  The claim as the specification words it fails: after a failed handshake on a fresh
  session, the device and interface fields are not what they were before the call.
\<close>

theorem connect_handshake_failure_counterexample:
  "control_transfer_err (sample_env\<lparr>control_transfer_err := Some (LibUSBError (- 1))\<rparr>)
     = Some (LibUSBError (- 1))
   \<and> \<not> (this_device (o_session (connect
              (sample_env\<lparr>control_transfer_err := Some (LibUSBError (- 1))\<rparr>)
              (constructor None)))
          = this_device (constructor None)
        \<and> this_interface (o_session (connect
              (sample_env\<lparr>control_transfer_err := Some (LibUSBError (- 1))\<rparr>)
              (constructor None)))
          = this_interface (constructor None)
        \<and> this_endpoint (o_session (connect
              (sample_env\<lparr>control_transfer_err := Some (LibUSBError (- 1))\<rparr>)
              (constructor None)))
          = this_endpoint (constructor None))"
  by code_simp

text \<open>
  C7 on the code. On Linux, for a device that is found and opened but has no interface,
  \<open>connect\<close> ends in an uncaught type error at \<open>this._interface.isKernelDriverActive()\<close>:
  no error event is emitted and the callback is not called. On another platform, with an
  \<open>error\<close> listener that returns, the same device gives the error \<open>Interface not found!\<close>
  through the event and the callback.
\<close>

theorem connect_no_interface:
  "connect (env\<lparr>platform := ''linux'', find_by_ids := (\<lambda>v p. Some \<lparr>interfaces = []\<rparr>),
                 open_throws := None\<rparr>) s
     = \<lparr> o_session = s\<lparr>this_device := Obj \<lparr>interfaces = []\<rparr>, this_interface := Undefined\<rparr>,
         o_events = [], o_calls = [Open], o_callback = None,
         o_thrown = Some (TypeError ''isKernelDriverActive'') \<rparr>
   \<and> connect (env\<lparr>platform := ''darwin'', find_by_ids := (\<lambda>v p. Some \<lparr>interfaces = []\<rparr>),
                   open_throws := None, error_listeners := Listener (\<lambda>e. None)\<rparr>) s
     = \<lparr> o_session = s\<lparr>this_device := Obj \<lparr>interfaces = []\<rparr>, this_interface := Undefined\<rparr>,
         o_events = [EvError (Error ''Interface not found!'')], o_calls = [Open],
         o_callback = Some (Some (Error ''Interface not found!'')),
         o_thrown = None \<rparr>"
  by (simp add: connect_def connect_driver_def connect_interface_def first_ref_def
      throw_def report_def emit_error_throws_def)

section \<open>Disconnecting\<close>

text \<open>
  C8 on the code. On a session that was never connected, whatever the constructor's
  options and whatever the library would answer, \<open>disconnect\<close> ends in an uncaught type
  error at \<open>this._endpoint.stopPoll\<close>: it emits nothing, makes no library call and does
  not call the callback.
\<close>

theorem disconnect_never_connected:
  "disconnect env (constructor opts)
     = \<lparr> o_session = constructor opts, o_events = [], o_calls = [], o_callback = None,
         o_thrown = Some (TypeError ''stopPoll'') \<rparr>"
  by (simp add: disconnect_def constructor_def throw_def)

text \<open>
  C9 on the code. On Linux, on a connected session whose polling stops, when
  \<open>attachKernelDriver\<close> throws \<open>e\<close> the exception leaves the \<open>stopPoll\<close> callback: the
  interface is not released, the device is not closed, no disconnect event is emitted and
  the callback is not called. When instead \<open>release\<close> reports an error and the \<open>error\<close>
  listener returns, the error is emitted and the device is still closed and the
  disconnect event emitted.
\<close>

theorem disconnect_reattach_fails:
  "disconnect (env\<lparr>platform := ''linux'', stop_poll_throws := None, attach_throws := Some e\<rparr>)
              (s\<lparr>this_device := Obj dev, this_interface := Obj iface, this_endpoint := Obj ep\<rparr>)
     = \<lparr> o_session = s\<lparr>this_device := Obj dev, this_interface := Obj iface,
                         this_endpoint := Obj ep\<rparr>,
         o_events = [], o_calls = [StopPoll, AttachKernelDriver], o_callback = None,
         o_thrown = Some e \<rparr>
   \<and> disconnect (env\<lparr>platform := ''linux'', stop_poll_throws := None, attach_throws := None,
                      release_err := Some e, close_throws := None,
                      error_listeners := Listener (\<lambda>e. None)\<rparr>)
              (s\<lparr>this_device := Obj dev, this_interface := Obj iface, this_endpoint := Obj ep\<rparr>)
     = \<lparr> o_session = s\<lparr>this_device := Obj dev, this_interface := Obj iface,
                         this_endpoint := Obj ep\<rparr>,
         o_events = [EvError e, EvDisconnect],
         o_calls = [StopPoll, AttachKernelDriver, Release True, Close],
         o_callback = Some (Some e), o_thrown = None \<rparr>"
  by (simp add: disconnect_def disconnect_stopped_def disconnect_release_def
      disconnect_released_def disconnect_close_def throw_def emit_error_throws_def)

end
